theory Spec2Isabelle
  imports Main
begin

section \<open>The vocabulary module \<open>xsdata/models/enums.py\<close>\<close>

text \<open>
  The module declares closed vocabularies (namespaces, data types, schema tags and a few
  small enumerations) together with two reverse indexes that are built once, when the
  module is loaded, by a dict comprehension over the members of an \<open>Enum\<close> class.
  Python strings are modelled as \<open>string\<close>; every string of the module is ASCII.
\<close>

subsection \<open>Python primitives used by the module\<close>

text \<open>
  \<open>{key(x): x for x in xs}\<close>: the members are stored one after the other, so a later
  member with an equal key replaces an earlier one.
\<close>

definition dict_comprehension :: "('a \<Rightarrow> 'k) \<Rightarrow> 'a list \<Rightarrow> ('k \<rightharpoonup> 'a)" where
  "dict_comprehension key xs = foldl (\<lambda>m x. m(key x \<mapsto> x)) Map.empty xs"

text \<open>
  The body shared by both \<open>get_enum\<close> class methods: \<open>table.get(key) if key else None\<close>.
  The argument is optional; \<open>None\<close> and the empty string are both falsy, so neither
  reaches the table.
\<close>

definition get_if_truthy :: "(string \<rightharpoonup> 'a) \<Rightarrow> string option \<Rightarrow> 'a option" where
  "get_if_truthy table key =
     (case key of
        None \<Rightarrow> None
      | Some s \<Rightarrow> (if s \<noteq> [] then table s else None))"

text \<open>\<open>str.lower\<close> on ASCII text: the letters \<open>A\<close> to \<open>Z\<close> move down by 32.\<close>

definition lower_char :: "char \<Rightarrow> char" where
  "lower_char c =
     (let n = (of_char c :: nat) in if 65 \<le> n \<and> n \<le> 90 then char_of (n + 32) else c)"

definition lower :: "string \<Rightarrow> string" where
  "lower s = map lower_char s"

text \<open>\<open>sep.join(parts)\<close>.\<close>

fun join :: "string \<Rightarrow> string list \<Rightarrow> string" where
  "join sep [] = []"
| "join sep [p] = p"
| "join sep (p # q # ps) = p @ sep @ join sep (q # ps)"

text \<open>
  Calling an \<open>Enum\<close> class with a value, \<open>cls(value)\<close>: the first member declared with
  that value is returned, and a value that no member has raises \<open>ValueError\<close>.
\<close>

datatype py_error = ValueError

definition enum_call :: "('a \<Rightarrow> string) \<Rightarrow> 'a list \<Rightarrow> string \<Rightarrow> py_error + 'a" where
  "enum_call val members s =
     (case find (\<lambda>m. val m = s) members of
        None \<Rightarrow> Inl ValueError
      | Some m \<Rightarrow> Inr m)"

subsection \<open>\<open>class Namespace(Enum)\<close>\<close>

datatype Namespace = XS | XML | XSI | XLINK | XHTML | SOAP11 | SOAP12

text \<open>Iterating the class yields its members in declaration order.\<close>

definition Namespace_members :: "Namespace list" where
  "Namespace_members = [XS, XML, XSI, XLINK, XHTML, SOAP11, SOAP12]"

fun Namespace_name :: "Namespace \<Rightarrow> string" where
  "Namespace_name XS = ''XS''"
| "Namespace_name XML = ''XML''"
| "Namespace_name XSI = ''XSI''"
| "Namespace_name XLINK = ''XLINK''"
| "Namespace_name XHTML = ''XHTML''"
| "Namespace_name SOAP11 = ''SOAP11''"
| "Namespace_name SOAP12 = ''SOAP12''"

fun Namespace_value :: "Namespace \<Rightarrow> string" where
  "Namespace_value XS = ''http://www.w3.org/2001/XMLSchema''"
| "Namespace_value XML = ''http://www.w3.org/XML/1998/namespace''"
| "Namespace_value XSI = ''http://www.w3.org/2001/XMLSchema-instance''"
| "Namespace_value XLINK = ''http://www.w3.org/1999/xlink''"
| "Namespace_value XHTML = ''http://www.w3.org/1999/xhtml''"
| "Namespace_value SOAP11 = ''http://schemas.xmlsoap.org/wsdl/soap/''"
| "Namespace_value SOAP12 = ''http://schemas.xmlsoap.org/wsdl/soap12/''"

definition uri :: "Namespace \<Rightarrow> string" where
  "uri ns = Namespace_value ns"

definition prefix :: "Namespace \<Rightarrow> string" where
  "prefix ns = lower (Namespace_name ns)"

definition STANDARD_NAMESPACES :: "string \<rightharpoonup> Namespace" where
  "STANDARD_NAMESPACES = dict_comprehension uri Namespace_members"

definition Namespace_get_enum :: "string option \<Rightarrow> Namespace option" where
  "Namespace_get_enum u = get_if_truthy STANDARD_NAMESPACES u"

subsection \<open>\<open>class DataType(Enum)\<close>\<close>

text \<open>The Python types that appear as the second component of a member's value.\<close>

datatype py_type = T_QName | T_str | T_object | T_bool | T_int | T_Decimal | T_float

text \<open>\<open>t.__name__\<close>\<close>

fun type_name :: "py_type \<Rightarrow> string" where
  "type_name T_QName = ''QName''"
| "type_name T_str = ''str''"
| "type_name T_object = ''object''"
| "type_name T_bool = ''bool''"
| "type_name T_int = ''int''"
| "type_name T_Decimal = ''Decimal''"
| "type_name T_float = ''float''"

text \<open>
  The \<open>local\<close> attribute holds either one type or, for \<open>QMAP\<close>, a tuple of types.
  Only the tuple is an instance of \<open>Iterable\<close>.
\<close>

datatype local_payload = Type py_type | Tuple "py_type list"

datatype DataType =
    QMAP | OBJECT
  | ANY_ATOMIC_TYPE | ANY_URI | ANY_SIMPLE_TYPE | ANY_TYPE | BASE | BASE64_BINARY
  | BOOLEAN | BYTE | DATE | DATE_TIME | DATE_TIMESTAMP | DAY_TIME_DURATION
  | YEAR_MONTH_DURATION | DECIMAL | DERIVATION_CONTROL | DOUBLE | DURATION
  | ENTITIES | ENTITY | FLOAT | G_DAY | G_MONTH | G_MONTH_DAY | G_YEAR | G_YEAR_MONTH
  | HEX_BINARY | ID | IDREF | IDREFS | INT' | INTEGER | LANG | LANGUAGE | LONG
  | NAME | NCNAME | NEGATIVE_INTEGER | NMTOKEN | NMTOKENS | NON_NEGATIVE_INTEGER
  | NON_POSITIVE_INTEGER | NORMALIZED_STRING | NOTATION | POSITIVE_INTEGER | QNAME
  | SHORT | SIMPLE_DERIVATION_SET | STRING | TIME | TOKEN | UNSIGNED_BYTE
  | UNSIGNED_INT | UNSIGNED_LONG | UNSIGNED_SHORT

text \<open>
  The member \<open>INT\<close> is written \<open>INT'\<close>: the bare word is taken by the notation for
  indexed intersections.
\<close>

definition DataType_members :: "DataType list" where
  "DataType_members =
     [QMAP, OBJECT,
      ANY_ATOMIC_TYPE, ANY_URI, ANY_SIMPLE_TYPE, ANY_TYPE, BASE, BASE64_BINARY,
      BOOLEAN, BYTE, DATE, DATE_TIME, DATE_TIMESTAMP, DAY_TIME_DURATION,
      YEAR_MONTH_DURATION, DECIMAL, DERIVATION_CONTROL, DOUBLE, DURATION,
      ENTITIES, ENTITY, FLOAT, G_DAY, G_MONTH, G_MONTH_DAY, G_YEAR, G_YEAR_MONTH,
      HEX_BINARY, ID, IDREF, IDREFS, INT', INTEGER, LANG, LANGUAGE, LONG,
      NAME, NCNAME, NEGATIVE_INTEGER, NMTOKEN, NMTOKENS, NON_NEGATIVE_INTEGER,
      NON_POSITIVE_INTEGER, NORMALIZED_STRING, NOTATION, POSITIVE_INTEGER, QNAME,
      SHORT, SIMPLE_DERIVATION_SET, STRING, TIME, TOKEN, UNSIGNED_BYTE,
      UNSIGNED_INT, UNSIGNED_LONG, UNSIGNED_SHORT]"

text \<open>The value tuple \<open>(code, local)\<close> of each member, as declared.\<close>

fun DataType_value :: "DataType \<Rightarrow> string \<times> local_payload" where
  "DataType_value QMAP = (''qmap'', Tuple [T_QName, T_str])"
| "DataType_value OBJECT = (''object'', Type T_object)"
| "DataType_value ANY_ATOMIC_TYPE = (''anyAtomicType'', Type T_str)"
| "DataType_value ANY_URI = (''anyURI'', Type T_str)"
| "DataType_value ANY_SIMPLE_TYPE = (''anySimpleType'', Type T_object)"
| "DataType_value ANY_TYPE = (''anyType'', Type T_object)"
| "DataType_value BASE = (''base'', Type T_str)"
| "DataType_value BASE64_BINARY = (''base64Binary'', Type T_str)"
| "DataType_value BOOLEAN = (''boolean'', Type T_bool)"
| "DataType_value BYTE = (''byte'', Type T_int)"
| "DataType_value DATE = (''date'', Type T_str)"
| "DataType_value DATE_TIME = (''dateTime'', Type T_str)"
| "DataType_value DATE_TIMESTAMP = (''dateTimeStamp'', Type T_str)"
| "DataType_value DAY_TIME_DURATION = (''dayTimeDuration'', Type T_str)"
| "DataType_value YEAR_MONTH_DURATION = (''yearMonthDuration'', Type T_str)"
| "DataType_value DECIMAL = (''decimal'', Type T_Decimal)"
| "DataType_value DERIVATION_CONTROL = (''derivationControl'', Type T_str)"
| "DataType_value DOUBLE = (''double'', Type T_Decimal)"
| "DataType_value DURATION = (''duration'', Type T_str)"
| "DataType_value ENTITIES = (''ENTITIES'', Type T_int)"
| "DataType_value ENTITY = (''ENTITY'', Type T_int)"
| "DataType_value FLOAT = (''float'', Type T_float)"
| "DataType_value G_DAY = (''gDay'', Type T_str)"
| "DataType_value G_MONTH = (''gMonth'', Type T_str)"
| "DataType_value G_MONTH_DAY = (''gMonthDay'', Type T_str)"
| "DataType_value G_YEAR = (''gYear'', Type T_str)"
| "DataType_value G_YEAR_MONTH = (''gYearMonth'', Type T_str)"
| "DataType_value HEX_BINARY = (''hexBinary'', Type T_str)"
| "DataType_value ID = (''ID'', Type T_str)"
| "DataType_value IDREF = (''IDREF'', Type T_str)"
| "DataType_value IDREFS = (''IDREFS'', Type T_str)"
| "DataType_value INT' = (''int'', Type T_int)"
| "DataType_value INTEGER = (''integer'', Type T_int)"
| "DataType_value LANG = (''lang'', Type T_str)"
| "DataType_value LANGUAGE = (''language'', Type T_str)"
| "DataType_value LONG = (''long'', Type T_int)"
| "DataType_value NAME = (''Name'', Type T_str)"
| "DataType_value NCNAME = (''NCName'', Type T_str)"
| "DataType_value NEGATIVE_INTEGER = (''negativeInteger'', Type T_int)"
| "DataType_value NMTOKEN = (''NMTOKEN'', Type T_str)"
| "DataType_value NMTOKENS = (''NMTOKENS'', Type T_str)"
| "DataType_value NON_NEGATIVE_INTEGER = (''nonNegativeInteger'', Type T_int)"
| "DataType_value NON_POSITIVE_INTEGER = (''nonPositiveInteger'', Type T_int)"
| "DataType_value NORMALIZED_STRING = (''normalizedString'', Type T_str)"
| "DataType_value NOTATION = (''NOTATION'', Type T_str)"
| "DataType_value POSITIVE_INTEGER = (''positiveInteger'', Type T_int)"
| "DataType_value QNAME = (''QName'', Type T_QName)"
| "DataType_value SHORT = (''short'', Type T_int)"
| "DataType_value SIMPLE_DERIVATION_SET = (''simpleDerivationSet'', Type T_str)"
| "DataType_value STRING = (''string'', Type T_str)"
| "DataType_value TIME = (''time'', Type T_str)"
| "DataType_value TOKEN = (''token'', Type T_str)"
| "DataType_value UNSIGNED_BYTE = (''unsignedByte'', Type T_int)"
| "DataType_value UNSIGNED_INT = (''unsignedInt'', Type T_int)"
| "DataType_value UNSIGNED_LONG = (''unsignedLong'', Type T_int)"
| "DataType_value UNSIGNED_SHORT = (''unsignedShort'', Type T_int)"

text \<open>\<open>__init__\<close> stores the two components of the value as attributes.\<close>

definition code :: "DataType \<Rightarrow> string" where
  "code d = fst (DataType_value d)"

definition local :: "DataType \<Rightarrow> local_payload" where
  "local d = snd (DataType_value d)"

text \<open>A qualified name is a pair of an optional namespace and a local name.\<close>

record QName =
  namespace :: "string option"
  localname :: string

definition qname :: "DataType \<Rightarrow> QName" where
  "qname d = \<lparr>namespace = Some (uri XS), localname = code d\<rparr>"

definition local_name :: "DataType \<Rightarrow> string" where
  "local_name d =
     (case local d of
        Tuple ts \<Rightarrow> join '', '' (map type_name ts)
      | Type t \<Rightarrow> type_name t)"

definition XSDType :: "string \<rightharpoonup> DataType" where
  "XSDType = dict_comprehension code DataType_members"

definition DataType_get_enum :: "string option \<Rightarrow> DataType option" where
  "DataType_get_enum c = get_if_truthy XSDType c"

subsection \<open>\<open>class Tag\<close>\<close>

text \<open>
  \<open>Tag\<close> is a plain class whose body binds attribute names to strings. The body is kept
  as the list of its bindings, in the two blocks the source separates with the comment
  \<open># Restrictions\<close>.
\<close>

definition Tag_structure :: "(string \<times> string) list" where
  "Tag_structure =
     [(''ALL'', ''All''), (''ANNOTATION'', ''Annotation''), (''ANY'', ''Any''),
      (''ANY_ATTRIBUTE'', ''AnyAttribute''), (''APPINFO'', ''Appinfo''),
      (''ASSERTION'', ''Assertion''), (''ALTERNATIVE'', ''Alternative''),
      (''ATTRIBUTE'', ''Attribute''), (''ATTRIBUTE_GROUP'', ''AttributeGroup''),
      (''CHOICE'', ''Choice''), (''COMPLEX_CONTENT'', ''ComplexContent''),
      (''COMPLEX_TYPE'', ''ComplexType''), (''DOCUMENTATION'', ''Documentation''),
      (''ELEMENT'', ''Element''), (''EXTENSION'', ''Extension''), (''FIELD'', ''Field''),
      (''GROUP'', ''Group''), (''IMPORT'', ''Import''), (''INCLUDE'', ''Include''),
      (''KEY'', ''Key''), (''KEYREF'', ''Keyref''), (''LIST'', ''List''),
      (''NOTATION'', ''Notation''), (''OVERRIDE'', ''Override''),
      (''REDEFINE'', ''Redefine''), (''RESTRICTION'', ''Restriction''),
      (''SCHEMA'', ''Schema''), (''SELECTOR'', ''Selector''), (''SEQUENCE'', ''Sequence''),
      (''SIMPLE_CONTENT'', ''SimpleContent''), (''SIMPLE_TYPE'', ''SimpleType''),
      (''UNION'', ''Union''), (''UNIQUE'', ''Unique'')]"

definition Tag_restrictions :: "(string \<times> string) list" where
  "Tag_restrictions =
     [(''ENUMERATION'', ''Enumeration''), (''FRACTION_DIGITS'', ''FractionDigits''),
      (''LENGTH'', ''Length''), (''MAX_EXCLUSIVE'', ''MaxExclusive''),
      (''MAX_INCLUSIVE'', ''MaxInclusive''), (''MAX_LENGTH'', ''MaxLength''),
      (''MIN_EXCLUSIVE'', ''MinExclusive''), (''MIN_INCLUSIVE'', ''MinInclusive''),
      (''MIN_LENGTH'', ''MinLength''), (''PATTERN'', ''Pattern''),
      (''TOTAL_DIGITS'', ''TotalDigits''), (''WHITE_SPACE'', ''WhiteSpace'')]"

definition Tag_body :: "(string \<times> string) list" where
  "Tag_body = Tag_structure @ Tag_restrictions"

definition Tag_values :: "string list" where
  "Tag_values = map snd Tag_body"

subsection \<open>The small enumerations\<close>

datatype FormType = QUALIFIED | UNQUALIFIED

definition FormType_members :: "FormType list" where
  "FormType_members = [QUALIFIED, UNQUALIFIED]"

fun FormType_value :: "FormType \<Rightarrow> string" where
  "FormType_value QUALIFIED = ''qualified''"
| "FormType_value UNQUALIFIED = ''unqualified''"

datatype Mode = NONE | SUFFIX | INTERLEAVE

definition Mode_members :: "Mode list" where
  "Mode_members = [NONE, SUFFIX, INTERLEAVE]"

fun Mode_value :: "Mode \<Rightarrow> string" where
  "Mode_value NONE = ''none''"
| "Mode_value SUFFIX = ''suffix''"
| "Mode_value INTERLEAVE = ''interleave''"

datatype UseType = OPTIONAL | PROHIBITED | REQUIRED

definition UseType_members :: "UseType list" where
  "UseType_members = [OPTIONAL, PROHIBITED, REQUIRED]"

fun UseType_value :: "UseType \<Rightarrow> string" where
  "UseType_value OPTIONAL = ''optional''"
| "UseType_value PROHIBITED = ''prohibited''"
| "UseType_value REQUIRED = ''required''"

datatype ProcessType = LAX | SKIP | STRICT

definition ProcessType_members :: "ProcessType list" where
  "ProcessType_members = [LAX, SKIP, STRICT]"

fun ProcessType_value :: "ProcessType \<Rightarrow> string" where
  "ProcessType_value LAX = ''lax''"
| "ProcessType_value SKIP = ''skip''"
| "ProcessType_value STRICT = ''strict''"

datatype BindingStyle = RPC | DOCUMENT

definition BindingStyle_members :: "BindingStyle list" where
  "BindingStyle_members = [RPC, DOCUMENT]"

fun BindingStyle_value :: "BindingStyle \<Rightarrow> string" where
  "BindingStyle_value RPC = ''rpc''"
| "BindingStyle_value DOCUMENT = ''document''"

datatype UseChoice = LITERAL | ENCODED

definition UseChoice_members :: "UseChoice list" where
  "UseChoice_members = [LITERAL, ENCODED]"

fun UseChoice_value :: "UseChoice \<Rightarrow> string" where
  "UseChoice_value LITERAL = ''literal''"
| "UseChoice_value ENCODED = ''encoded''"

text \<open>
  None of the six classes defines a lookup of its own. The conversion from a string that
  they have is the one every \<open>Enum\<close> class has, the call \<open>cls(value)\<close>; the conversion
  to a string is the attribute \<open>value\<close>.
\<close>

definition FormType_call :: "string \<Rightarrow> py_error + FormType" where
  "FormType_call s = enum_call FormType_value FormType_members s"

definition Mode_call :: "string \<Rightarrow> py_error + Mode" where
  "Mode_call s = enum_call Mode_value Mode_members s"

definition UseType_call :: "string \<Rightarrow> py_error + UseType" where
  "UseType_call s = enum_call UseType_value UseType_members s"

definition ProcessType_call :: "string \<Rightarrow> py_error + ProcessType" where
  "ProcessType_call s = enum_call ProcessType_value ProcessType_members s"

definition BindingStyle_call :: "string \<Rightarrow> py_error + BindingStyle" where
  "BindingStyle_call s = enum_call BindingStyle_value BindingStyle_members s"

definition UseChoice_call :: "string \<Rightarrow> py_error + UseChoice" where
  "UseChoice_call s = enum_call UseChoice_value UseChoice_members s"

subsection \<open>Notions of the specification\<close>

text \<open>
  The specification speaks of an ordered sequence of native kinds per entry, of length
  one for a single-kind entry.
\<close>

definition nativeKinds :: "DataType \<Rightarrow> py_type list" where
  "nativeKinds d = (case local d of Type t \<Rightarrow> [t] | Tuple ts \<Rightarrow> ts)"

text \<open>
  The integer family of XSD: \<open>integer\<close> and the types derived from it.
\<close>

definition integer_family :: "string list" where
  "integer_family =
     [''integer'', ''nonPositiveInteger'', ''negativeInteger'', ''long'', ''int'',
      ''short'', ''byte'', ''nonNegativeInteger'', ''unsignedLong'', ''unsignedInt'',
      ''unsignedShort'', ''unsignedByte'', ''positiveInteger'']"

text \<open>
  The built-in datatypes of W3C XML Schema Part 2 (version 1.1, which contains those of
  version 1.0): the three special types, the nineteen primitive types and the other
  built-in types.
\<close>

definition xsd_special :: "string list" where
  "xsd_special = [''anyType'', ''anySimpleType'', ''anyAtomicType'']"

definition xsd_primitive :: "string list" where
  "xsd_primitive =
     [''string'', ''boolean'', ''decimal'', ''float'', ''double'', ''duration'',
      ''dateTime'', ''time'', ''date'', ''gYearMonth'', ''gYear'', ''gMonthDay'',
      ''gDay'', ''gMonth'', ''hexBinary'', ''base64Binary'', ''anyURI'', ''QName'',
      ''NOTATION'']"

definition xsd_derived :: "string list" where
  "xsd_derived =
     [''normalizedString'', ''token'', ''language'', ''NMTOKEN'', ''NMTOKENS'', ''Name'',
      ''NCName'', ''ID'', ''IDREF'', ''IDREFS'', ''ENTITY'', ''ENTITIES'', ''integer'',
      ''nonPositiveInteger'', ''negativeInteger'', ''long'', ''int'', ''short'', ''byte'',
      ''nonNegativeInteger'', ''unsignedLong'', ''unsignedInt'', ''unsignedShort'',
      ''unsignedByte'', ''positiveInteger'', ''yearMonthDuration'', ''dayTimeDuration'',
      ''dateTimeStamp'']"

definition xsd_builtin :: "string list" where
  "xsd_builtin = xsd_special @ xsd_primitive @ xsd_derived"

definition synthetic_codes :: "string list" where
  "synthetic_codes = [''qmap'', ''object'']"

text \<open>The number of registry entries that carry a given code.\<close>

definition entries_with_code :: "string \<Rightarrow> nat" where
  "entries_with_code c = length (filter (\<lambda>d. code d = c) DataType_members)"

text \<open>\<open>s.endswith(suffix)\<close>\<close>

definition endswith :: "string \<Rightarrow> string \<Rightarrow> bool" where
  "endswith s suf = (length suf \<le> length s \<and> drop (length s - length suf) s = suf)"

text \<open>
  Modelled from the spec: the module under \<open>src/\<close> declares the tag strings but no
  operation on them; \<open>isRecognized\<close> and \<open>isRestrictionFacet\<close> are missing. They follow
  section 4.3: membership in the closed set of tag strings, and the classification that
  is true for Enumeration, Pattern, Length and the length bounds, the tags ending in
  Digits, Inclusive or Exclusive, and WhiteSpace.
\<close>

definition isRecognized :: "string \<Rightarrow> bool" where
  "isRecognized tag = (tag \<in> set Tag_values)"

text \<open>
  Modelled from the spec: the shape of a restriction facet named in section 4.3
  (Enumeration, Pattern, Length and the two length bounds, the endings Digits, Inclusive
  and Exclusive, WhiteSpace); the source has no such test.
\<close>

definition facet_shape :: "string \<Rightarrow> bool" where
  "facet_shape tag =
     (tag = ''Enumeration'' \<or> tag = ''Pattern'' \<or> tag = ''Length''
      \<or> tag = ''MinLength'' \<or> tag = ''MaxLength''
      \<or> endswith tag ''Digits'' \<or> endswith tag ''Inclusive'' \<or> endswith tag ''Exclusive''
      \<or> tag = ''WhiteSpace'')"

text \<open>
  Modelled from the spec: \<open>isRestrictionFacet\<close>, a classification of the recognized
  tags; the source has no such operation.
\<close>

definition isRestrictionFacet :: "string \<Rightarrow> bool" where
  "isRestrictionFacet tag = (isRecognized tag \<and> facet_shape tag)"

section \<open>Properties\<close>

subsection \<open>The reverse index built by a dict comprehension\<close>

lemma dict_comprehension_miss:
  "k \<notin> key ` set xs \<Longrightarrow> foldl (\<lambda>m x. m(key x \<mapsto> x)) m xs k = m k"
  by (induction xs arbitrary: m) auto

lemma dict_comprehension_hit:
  "distinct (map key xs) \<Longrightarrow> x \<in> set xs \<Longrightarrow> foldl (\<lambda>m x. m(key x \<mapsto> x)) m xs (key x) = Some x"
proof (induction xs arbitrary: m)
  case Nil then show ?case by simp
next
  case (Cons y ys)
  show ?case
  proof (cases "x = y")
    case True
    with Cons.prems have "key y \<notin> key ` set ys" by simp
    then have "foldl (\<lambda>m x. m(key x \<mapsto> x)) (m(key y \<mapsto> y)) ys (key y) = (m(key y \<mapsto> y)) (key y)"
      by (rule dict_comprehension_miss)
    also have "\<dots> = Some y" by simp
    finally have "foldl (\<lambda>m x. m(key x \<mapsto> x)) (m(key y \<mapsto> y)) ys (key y) = Some y" .
    with True show ?thesis by (simp del: fun_upd_apply)
  next
    case False
    with Cons.prems have "distinct (map key ys)" "x \<in> set ys" by simp_all
    then have "foldl (\<lambda>m x. m(key x \<mapsto> x)) (m(key y \<mapsto> y)) ys (key x) = Some x"
      by (rule Cons.IH)
    then show ?thesis by (simp del: fun_upd_apply)
  qed
qed

lemma dict_get_member:
  "distinct (map key xs) \<Longrightarrow> x \<in> set xs \<Longrightarrow> dict_comprehension key xs (key x) = Some x"
  unfolding dict_comprehension_def by (rule dict_comprehension_hit)

lemma dict_get_other:
  "k \<notin> key ` set xs \<Longrightarrow> dict_comprehension key xs k = None"
  unfolding dict_comprehension_def by (simp add: dict_comprehension_miss)

subsection \<open>Facts about the tables\<close>

lemma Namespace_members_all: "ns \<in> set Namespace_members"
  by (cases ns) (simp_all add: Namespace_members_def)

lemma Namespace_uri_distinct: "distinct (map uri Namespace_members)"
  by (simp add: Namespace_members_def uri_def)

lemma Namespace_uri_nonempty: "uri ns \<noteq> []"
  by (cases ns) (simp_all add: uri_def)

lemma STANDARD_NAMESPACES_uri: "STANDARD_NAMESPACES (uri ns) = Some ns"
  unfolding STANDARD_NAMESPACES_def
  by (rule dict_get_member [OF Namespace_uri_distinct Namespace_members_all])

lemma Namespace_prefixes:
  "map prefix Namespace_members =
     [''xs'', ''xml'', ''xsi'', ''xlink'', ''xhtml'', ''soap11'', ''soap12'']"
  by code_simp

lemma DataType_members_all: "d \<in> set DataType_members"
  by (cases d) (simp_all add: DataType_members_def)

lemma DataType_codes:
  "map code DataType_members =
     [''qmap'', ''object'', ''anyAtomicType'', ''anyURI'', ''anySimpleType'', ''anyType'',
      ''base'', ''base64Binary'', ''boolean'', ''byte'', ''date'', ''dateTime'',
      ''dateTimeStamp'', ''dayTimeDuration'', ''yearMonthDuration'', ''decimal'',
      ''derivationControl'', ''double'', ''duration'', ''ENTITIES'', ''ENTITY'', ''float'',
      ''gDay'', ''gMonth'', ''gMonthDay'', ''gYear'', ''gYearMonth'', ''hexBinary'', ''ID'',
      ''IDREF'', ''IDREFS'', ''int'', ''integer'', ''lang'', ''language'', ''long'', ''Name'',
      ''NCName'', ''negativeInteger'', ''NMTOKEN'', ''NMTOKENS'', ''nonNegativeInteger'',
      ''nonPositiveInteger'', ''normalizedString'', ''NOTATION'', ''positiveInteger'',
      ''QName'', ''short'', ''simpleDerivationSet'', ''string'', ''time'', ''token'',
      ''unsignedByte'', ''unsignedInt'', ''unsignedLong'', ''unsignedShort'']"
  by (simp add: DataType_members_def code_def)

lemma DataType_code_distinct: "distinct (map code DataType_members)"
  unfolding DataType_codes by simp

lemma DataType_code_nonempty: "code d \<noteq> []"
  by (cases d) (simp_all add: code_def)

lemma XSDType_code: "XSDType (code d) = Some d"
  unfolding XSDType_def
  by (rule dict_get_member [OF DataType_code_distinct DataType_members_all])

lemma XSDType_other: "c \<notin> code ` set DataType_members \<Longrightarrow> XSDType c = None"
  unfolding XSDType_def by (rule dict_get_other)

lemma DataType_members_length: "length DataType_members = 56"
  by (simp add: DataType_members_def)

lemma enum_call_unknown:
  "s \<notin> val ` set members \<Longrightarrow> enum_call val members s = Inl ValueError"
proof -
  assume "s \<notin> val ` set members"
  then have "find (\<lambda>m. val m = s) members = None"
    by (auto simp add: find_None_iff)
  then show ?thesis
    by (simp add: enum_call_def)
qed

subsection \<open>Namespace registry\<close>

text \<open>
  C7. For every namespace \<open>ns\<close>, \<open>Namespace.get_enum(ns.uri)\<close> is \<open>ns\<close>;
  \<open>get_enum(None)\<close> is \<open>None\<close>; and \<open>get_enum\<close> of a URI that no member has is
  \<open>None\<close>. Every value of the type is a member of the table
  (\<open>Namespace_members_all\<close>).
\<close>

theorem Namespace_get_enum_roundtrip:
  "(\<forall>ns. Namespace_get_enum (Some (uri ns)) = Some ns)
   \<and> Namespace_get_enum None = None
   \<and> (\<forall>u. u \<notin> uri ` set Namespace_members \<longrightarrow> Namespace_get_enum (Some u) = None)"
proof (intro conjI allI impI)
  fix ns
  show "Namespace_get_enum (Some (uri ns)) = Some ns"
    by (simp add: Namespace_get_enum_def get_if_truthy_def Namespace_uri_nonempty
        STANDARD_NAMESPACES_uri)
next
  show "Namespace_get_enum None = None"
    by (simp add: Namespace_get_enum_def get_if_truthy_def)
next
  fix u
  assume "u \<notin> uri ` set Namespace_members"
  then have "STANDARD_NAMESPACES u = None"
    unfolding STANDARD_NAMESPACES_def by (rule dict_get_other)
  then show "Namespace_get_enum (Some u) = None"
    by (simp add: Namespace_get_enum_def get_if_truthy_def)
qed

theorem Namespace_get_enum_roundtrip_witness:
  "''unregistered:uri'' \<notin> uri ` set Namespace_members
   \<and> Namespace_get_enum (Some ''unregistered:uri'') = None
   \<and> Namespace_get_enum (Some ''http://www.w3.org/2001/XMLSchema-instance'') = Some XSI"
proof -
  have h: "''unregistered:uri'' \<notin> uri ` set Namespace_members"
    by code_simp
  have "Namespace_get_enum (Some (uri XSI)) = Some XSI"
    using Namespace_get_enum_roundtrip by blast
  moreover have "Namespace_get_enum (Some ''unregistered:uri'') = None"
    using Namespace_get_enum_roundtrip h by blast
  ultimately show ?thesis
    using h by (simp add: uri_def)
qed

text \<open>
  C9. The prefix of every namespace is its member name in lower case, which gives the
  seven prefixes listed, and no two namespaces have the same prefix.
\<close>

theorem Namespace_prefix_lower_injective:
  "(\<forall>ns. prefix ns = lower (Namespace_name ns))
   \<and> map prefix Namespace_members =
       [''xs'', ''xml'', ''xsi'', ''xlink'', ''xhtml'', ''soap11'', ''soap12'']
   \<and> distinct (map prefix Namespace_members)
   \<and> inj prefix"
proof -
  have d: "distinct (map prefix Namespace_members)"
    unfolding Namespace_prefixes by simp
  then have "inj_on prefix (set Namespace_members)"
    by (simp add: distinct_map)
  moreover have "set Namespace_members = UNIV"
    using Namespace_members_all by auto
  ultimately have "inj prefix"
    by simp
  with d show ?thesis
    by (simp add: prefix_def Namespace_prefixes [symmetric])
qed

subsection \<open>Data type registry\<close>

text \<open>
  C2. For every entry \<open>d\<close>, \<open>DataType.get_enum(d.code)\<close> is \<open>d\<close>, so the codes of the
  entries are pairwise different; \<open>get_enum(None)\<close> is \<open>None\<close>; \<open>get_enum\<close> of a
  string that is the code of no entry is \<open>None\<close>; and in particular
  \<open>get_enum("not-a-type")\<close> is \<open>None\<close>. Every value of the type is a member of the
  table (\<open>DataType_members_all\<close>).
\<close>

theorem DataType_get_enum_roundtrip:
  "(\<forall>d. DataType_get_enum (Some (code d)) = Some d)
   \<and> distinct (map code DataType_members)
   \<and> DataType_get_enum None = None
   \<and> (\<forall>c. c \<notin> code ` set DataType_members \<longrightarrow> DataType_get_enum (Some c) = None)
   \<and> DataType_get_enum (Some ''not-a-type'') = None"
proof (intro conjI allI impI)
  fix d
  show "DataType_get_enum (Some (code d)) = Some d"
    by (simp add: DataType_get_enum_def get_if_truthy_def DataType_code_nonempty XSDType_code)
next
  show "distinct (map code DataType_members)"
    by (rule DataType_code_distinct)
next
  show "DataType_get_enum None = None"
    by (simp add: DataType_get_enum_def get_if_truthy_def)
next
  fix c
  assume "c \<notin> code ` set DataType_members"
  then have "XSDType c = None"
    by (rule XSDType_other)
  then show "DataType_get_enum (Some c) = None"
    by (simp add: DataType_get_enum_def get_if_truthy_def)
next
  show "DataType_get_enum (Some ''not-a-type'') = None"
    by code_simp
qed

theorem DataType_get_enum_roundtrip_witness:
  "''xs:int'' \<notin> code ` set DataType_members
   \<and> DataType_get_enum (Some ''xs:int'') = None
   \<and> DataType_get_enum (Some ''dateTime'') = Some DATE_TIME"
proof -
  have h: "''xs:int'' \<notin> code ` set DataType_members"
    by code_simp
  from DataType_get_enum_roundtrip
  have r: "\<forall>d. DataType_get_enum (Some (code d)) = Some d"
    by (elim conjE)
  from DataType_get_enum_roundtrip
  have m: "\<forall>c. c \<notin> code ` set DataType_members \<longrightarrow> DataType_get_enum (Some c) = None"
    by (elim conjE)
  from r have "DataType_get_enum (Some (code DATE_TIME)) = Some DATE_TIME"
    by (rule spec)
  then have a: "DataType_get_enum (Some ''dateTime'') = Some DATE_TIME"
    by (simp add: code_def)
  from m [rule_format, OF h] have b: "DataType_get_enum (Some ''xs:int'') = None" .
  from h b a show ?thesis
    by (intro conjI)
qed

text \<open>
  C10. For the empty string both reverse lookups return \<open>None\<close>, and they do so whatever
  the table holds: the guard answers before the table is read, so an entry stored under
  the empty string could not be reached.
\<close>

theorem get_enum_empty_string:
  "Namespace_get_enum (Some []) = None
   \<and> DataType_get_enum (Some []) = None
   \<and> (\<forall>table x. get_if_truthy (table([] \<mapsto> x)) (Some []) = None)"
  by (simp add: Namespace_get_enum_def DataType_get_enum_def get_if_truthy_def)

text \<open>
  C6. The entries with the codes \<open>decimal\<close> and \<open>double\<close> have the type \<open>Decimal\<close>,
  the entry with the code \<open>float\<close> has the type \<open>float\<close>.
\<close>

theorem decimal_double_float_kinds:
  "map_option local (DataType_get_enum (Some ''decimal'')) = Some (Type T_Decimal)
   \<and> map_option local (DataType_get_enum (Some ''double'')) = Some (Type T_Decimal)
   \<and> map_option local (DataType_get_enum (Some ''float'')) = Some (Type T_float)"
  by code_simp

text \<open>
  C1 (as stated). The claim says that the entries with the codes \<open>ID\<close>, \<open>IDREF\<close> and
  \<open>ENTITY\<close> have an integer kind. The entries \<open>ID\<close> and \<open>IDREF\<close> are declared with
  \<open>str\<close>.
\<close>

theorem ID_IDREF_integer_counterexample:
  "DataType_get_enum (Some ''ID'') = Some ID \<and> local ID = Type T_str
   \<and> DataType_get_enum (Some ''IDREF'') = Some IDREF \<and> local IDREF = Type T_str
   \<and> Type T_str \<noteq> Type T_int"
  by code_simp

text \<open>
  C1 (amended). Every code of the integer family is the code of an entry whose type is
  \<open>int\<close>, and so is the code \<open>ENTITY\<close>; the entries with the codes \<open>ID\<close> and \<open>IDREF\<close>
  have the type \<open>str\<close>.
\<close>

theorem integer_family_kinds:
  "(\<forall>c \<in> set integer_family.
      map_option local (DataType_get_enum (Some c)) = Some (Type T_int))
   \<and> map_option local (DataType_get_enum (Some ''ENTITY'')) = Some (Type T_int)
   \<and> map_option local (DataType_get_enum (Some ''ID'')) = Some (Type T_str)
   \<and> map_option local (DataType_get_enum (Some ''IDREF'')) = Some (Type T_str)"
proof -
  have "list_all (\<lambda>c. map_option local (DataType_get_enum (Some c)) = Some (Type T_int))
          integer_family"
    by code_simp
  then have "\<forall>c \<in> set integer_family.
      map_option local (DataType_get_enum (Some c)) = Some (Type T_int)"
    by (simp add: list_all_iff)
  moreover have "map_option local (DataType_get_enum (Some ''ENTITY'')) = Some (Type T_int)"
    by code_simp
  moreover have "map_option local (DataType_get_enum (Some ''ID'')) = Some (Type T_str)"
    by code_simp
  moreover have "map_option local (DataType_get_enum (Some ''IDREF'')) = Some (Type T_str)"
    by code_simp
  ultimately show ?thesis
    by blast
qed

theorem integer_family_kinds_witness:
  "''unsignedLong'' \<in> set integer_family
   \<and> map_option local (DataType_get_enum (Some ''unsignedLong'')) = Some (Type T_int)"
proof -
  have h: "''unsignedLong'' \<in> set integer_family"
    by code_simp
  with integer_family_kinds show ?thesis
    by blast
qed

text \<open>
  C3 (as stated). The claim says that the codes of the registry are the built-in XSD type
  names and the two synthetic codes \<open>qmap\<close> and \<open>object\<close>, and nothing else. The code
  \<open>base\<close> has an entry and is neither.
\<close>

theorem registry_extra_code_counterexample:
  "DataType_get_enum (Some ''base'') = Some BASE
   \<and> ''base'' \<notin> set xsd_builtin
   \<and> ''base'' \<notin> set synthetic_codes"
  by code_simp

text \<open>
  C3 (amended). Every built-in XSD type name is the code of exactly one entry, and so
  are \<open>qmap\<close> and \<open>object\<close>; the registry has four further entries, one for each of
  the codes \<open>base\<close>, \<open>lang\<close>, \<open>derivationControl\<close> and \<open>simpleDerivationSet\<close>, and no
  others: it has 56 entries with pairwise different codes, and a string that is none of
  these 56 codes is the code of no entry; the entry \<open>decimal\<close> has the kinds
  \<open>[Decimal]\<close>, \<open>boolean\<close> has \<open>[bool]\<close> and \<open>unsignedLong\<close> has \<open>[int]\<close>.
\<close>

theorem registry_coverage:
  "(\<forall>c \<in> set xsd_builtin. entries_with_code c = 1)
   \<and> (\<forall>c \<in> set synthetic_codes. entries_with_code c = 1)
   \<and> set (map code DataType_members) =
       set xsd_builtin \<union> set synthetic_codes
       \<union> {''base'', ''lang'', ''derivationControl'', ''simpleDerivationSet''}
   \<and> map_option nativeKinds (DataType_get_enum (Some ''decimal'')) = Some [T_Decimal]
   \<and> map_option nativeKinds (DataType_get_enum (Some ''boolean'')) = Some [T_bool]
   \<and> map_option nativeKinds (DataType_get_enum (Some ''unsignedLong'')) = Some [T_int]
   \<and> (\<forall>c \<in> {''base'', ''lang'', ''derivationControl'', ''simpleDerivationSet''}.
        entries_with_code c = 1)
   \<and> (\<forall>c. c \<notin> set xsd_builtin \<union> set synthetic_codes
              \<union> {''base'', ''lang'', ''derivationControl'', ''simpleDerivationSet''}
        \<longrightarrow> entries_with_code c = 0)
   \<and> length DataType_members = 56
   \<and> distinct (map code DataType_members)
   \<and> length xsd_builtin = 50
   \<and> distinct xsd_builtin
   \<and> set xsd_builtin \<inter> set synthetic_codes = {}
   \<and> set xsd_builtin \<inter> {''base'', ''lang'', ''derivationControl'', ''simpleDerivationSet''} = {}"
proof -
  have "list_all (\<lambda>c. entries_with_code c = 1) xsd_builtin"
    by code_simp
  then have a: "\<forall>c \<in> set xsd_builtin. entries_with_code c = 1"
    by (simp add: list_all_iff)
  have "list_all (\<lambda>c. entries_with_code c = 1) synthetic_codes"
    by code_simp
  then have b: "\<forall>c \<in> set synthetic_codes. entries_with_code c = 1"
    by (simp add: list_all_iff)
  have "list_all (\<lambda>c. c \<in> set (xsd_builtin @ synthetic_codes
            @ [''base'', ''lang'', ''derivationControl'', ''simpleDerivationSet'']))
          (map code DataType_members)"
    by code_simp
  then have c1: "set (map code DataType_members) \<subseteq>
       set xsd_builtin \<union> set synthetic_codes
       \<union> {''base'', ''lang'', ''derivationControl'', ''simpleDerivationSet''}"
    unfolding list_all_iff by auto
  have "list_all (\<lambda>c. c \<in> set (map code DataType_members))
          (xsd_builtin @ synthetic_codes
            @ [''base'', ''lang'', ''derivationControl'', ''simpleDerivationSet''])"
    by code_simp
  then have c2: "set xsd_builtin \<union> set synthetic_codes
       \<union> {''base'', ''lang'', ''derivationControl'', ''simpleDerivationSet''}
       \<subseteq> set (map code DataType_members)"
    unfolding list_all_iff by auto
  have d: "map_option nativeKinds (DataType_get_enum (Some ''decimal'')) = Some [T_Decimal]"
    by code_simp
  have e: "map_option nativeKinds (DataType_get_enum (Some ''boolean'')) = Some [T_bool]"
    by code_simp
  have f: "map_option nativeKinds (DataType_get_enum (Some ''unsignedLong'')) = Some [T_int]"
    by code_simp
  from c1 c2 have cs: "set (map code DataType_members) =
       set xsd_builtin \<union> set synthetic_codes
       \<union> {''base'', ''lang'', ''derivationControl'', ''simpleDerivationSet''}"
    by (rule subset_antisym)
  have "list_all (\<lambda>c. entries_with_code c = 1)
          [''base'', ''lang'', ''derivationControl'', ''simpleDerivationSet'']"
    by code_simp
  then have g: "\<forall>c \<in> {''base'', ''lang'', ''derivationControl'', ''simpleDerivationSet''}.
        entries_with_code c = 1"
    by (simp add: list_all_iff)
  have h: "\<forall>c. c \<notin> set xsd_builtin \<union> set synthetic_codes
              \<union> {''base'', ''lang'', ''derivationControl'', ''simpleDerivationSet''}
        \<longrightarrow> entries_with_code c = 0"
  proof (intro allI impI)
    fix c
    assume other: "c \<notin> set xsd_builtin \<union> set synthetic_codes
              \<union> {''base'', ''lang'', ''derivationControl'', ''simpleDerivationSet''}"
    have "c \<notin> set (map code DataType_members)"
      unfolding cs by (rule other)
    then have "c \<notin> code ` set DataType_members"
      by simp
    then have "filter (\<lambda>d. code d = c) DataType_members = []"
      by (auto simp add: filter_empty_conv)
    then show "entries_with_code c = 0"
      by (simp add: entries_with_code_def)
  qed
  have i1: "length xsd_builtin = 50"
    by code_simp
  have i2: "distinct xsd_builtin"
    by code_simp
  have "list_all (\<lambda>c. c \<notin> set synthetic_codes
          \<and> c \<notin> set [''base'', ''lang'', ''derivationControl'', ''simpleDerivationSet''])
          xsd_builtin"
    by code_simp
  then have j: "set xsd_builtin \<inter> set synthetic_codes = {}
     \<and> set xsd_builtin \<inter> {''base'', ''lang'', ''derivationControl'', ''simpleDerivationSet''} = {}"
    unfolding list_all_iff by auto
  from j have j1: "set xsd_builtin \<inter> set synthetic_codes = {}"
    by (rule conjunct1)
  from j have j2: "set xsd_builtin
      \<inter> {''base'', ''lang'', ''derivationControl'', ''simpleDerivationSet''} = {}"
    by (rule conjunct2)
  from a b cs d e f g h DataType_members_length DataType_code_distinct i1 i2 j1 j2
  show ?thesis
    by (intro conjI)
qed

theorem registry_coverage_witness:
  "''dateTime'' \<in> set xsd_builtin \<and> entries_with_code ''dateTime'' = 1
   \<and> ''qmap'' \<in> set synthetic_codes \<and> entries_with_code ''qmap'' = 1
   \<and> ''lang'' \<in> {''base'', ''lang'', ''derivationControl'', ''simpleDerivationSet''}
   \<and> entries_with_code ''lang'' = 1
   \<and> ''xs:int'' \<notin> set xsd_builtin \<union> set synthetic_codes
         \<union> {''base'', ''lang'', ''derivationControl'', ''simpleDerivationSet''}
   \<and> entries_with_code ''xs:int'' = 0"
proof -
  have h1: "''dateTime'' \<in> set xsd_builtin"
    by code_simp
  have h2: "''qmap'' \<in> set synthetic_codes"
    by code_simp
  have h3: "''lang'' \<in> {''base'', ''lang'', ''derivationControl'', ''simpleDerivationSet''}"
    by simp
  have "''xs:int'' \<notin> set (xsd_builtin @ synthetic_codes
          @ [''base'', ''lang'', ''derivationControl'', ''simpleDerivationSet''])"
    by code_simp
  then have h4: "''xs:int'' \<notin> set xsd_builtin \<union> set synthetic_codes
         \<union> {''base'', ''lang'', ''derivationControl'', ''simpleDerivationSet''}"
    by simp
  from registry_coverage
  have a: "\<forall>c \<in> set xsd_builtin. entries_with_code c = 1"
    by (elim conjE)
  from registry_coverage
  have b: "\<forall>c \<in> set synthetic_codes. entries_with_code c = 1"
    by (elim conjE)
  from registry_coverage
  have c: "\<forall>c \<in> {''base'', ''lang'', ''derivationControl'', ''simpleDerivationSet''}.
        entries_with_code c = 1"
    by (elim conjE)
  from registry_coverage
  have d: "\<forall>c. c \<notin> set xsd_builtin \<union> set synthetic_codes
              \<union> {''base'', ''lang'', ''derivationControl'', ''simpleDerivationSet''}
        \<longrightarrow> entries_with_code c = 0"
    by (elim conjE)
  from a h1 have r1: "entries_with_code ''dateTime'' = 1"
    by (rule bspec)
  from b h2 have r2: "entries_with_code ''qmap'' = 1"
    by (rule bspec)
  from c h3 have r3: "entries_with_code ''lang'' = 1"
    by (rule bspec)
  from d [rule_format, OF h4] have r4: "entries_with_code ''xs:int'' = 0" .
  from h1 r1 h2 r2 h3 r3 h4 r4 show ?thesis
    by (intro conjI)
qed

text \<open>
  C5. The label of an entry is the names of its kinds joined by \<open>", "\<close> in declaration
  order; for an entry with one kind this is the name of that kind, and for the entry
  with the code \<open>qmap\<close>, whose kinds are \<open>QName\<close> and then \<open>str\<close>, it is
  \<open>"QName, str"\<close>.
\<close>

theorem local_name_label:
  "(\<forall>d. local_name d = join '', '' (map type_name (nativeKinds d)))
   \<and> (\<forall>d t. nativeKinds d = [t] \<longrightarrow> local_name d = type_name t)
   \<and> map_option nativeKinds (DataType_get_enum (Some ''qmap'')) = Some [T_QName, T_str]
   \<and> map_option local_name (DataType_get_enum (Some ''qmap'')) = Some ''QName, str''"
proof -
  have a: "local_name d = join '', '' (map type_name (nativeKinds d))" for d
    by (simp add: local_name_def nativeKinds_def split: local_payload.split)
  have b: "nativeKinds d = [t] \<Longrightarrow> local_name d = type_name t" for d t
    by (simp add: a)
  have c: "map_option nativeKinds (DataType_get_enum (Some ''qmap'')) = Some [T_QName, T_str]"
    by code_simp
  have d: "map_option local_name (DataType_get_enum (Some ''qmap'')) = Some ''QName, str''"
    by code_simp
  from a b c d show ?thesis
    by blast
qed

theorem local_name_label_witness:
  "nativeKinds BOOLEAN = [T_bool] \<and> local_name BOOLEAN = ''bool''"
proof -
  have h: "nativeKinds BOOLEAN = [T_bool]"
    by code_simp
  with local_name_label have "local_name BOOLEAN = type_name T_bool"
    by blast
  with h show ?thesis
    by simp
qed

subsection \<open>Schema tags\<close>

lemma Tag_facets: "filter facet_shape Tag_values = map snd Tag_restrictions"
  by code_simp

text \<open>
  C8. \<open>isRestrictionFacet\<close> is true exactly for the twelve tags that the source declares
  under \<open># Restrictions\<close>; it is true for \<open>"Enumeration"\<close> and false for \<open>"Element"\<close>,
  and both are recognized tags.
\<close>

theorem isRestrictionFacet_restrictions:
  "(\<forall>tag. isRestrictionFacet tag = (tag \<in> set (map snd Tag_restrictions)))
   \<and> map snd Tag_restrictions =
       [''Enumeration'', ''FractionDigits'', ''Length'', ''MaxExclusive'', ''MaxInclusive'',
        ''MaxLength'', ''MinExclusive'', ''MinInclusive'', ''MinLength'', ''Pattern'',
        ''TotalDigits'', ''WhiteSpace'']
   \<and> isRecognized ''Enumeration'' \<and> isRestrictionFacet ''Enumeration''
   \<and> isRecognized ''Element'' \<and> \<not> isRestrictionFacet ''Element''"
proof -
  have a: "isRestrictionFacet tag = (tag \<in> set (map snd Tag_restrictions))" for tag
  proof -
    have "isRestrictionFacet tag = (tag \<in> set (filter facet_shape Tag_values))"
      by (simp add: isRestrictionFacet_def isRecognized_def)
    then show ?thesis
      by (simp only: Tag_facets)
  qed
  have b: "map snd Tag_restrictions =
       [''Enumeration'', ''FractionDigits'', ''Length'', ''MaxExclusive'', ''MaxInclusive'',
        ''MaxLength'', ''MinExclusive'', ''MinInclusive'', ''MinLength'', ''Pattern'',
        ''TotalDigits'', ''WhiteSpace'']"
    by code_simp
  have c: "isRecognized ''Enumeration'' \<and> isRestrictionFacet ''Enumeration''
     \<and> isRecognized ''Element'' \<and> \<not> isRestrictionFacet ''Element''"
    by code_simp
  from a b c show ?thesis
    by blast
qed

subsection \<open>The small enumerations\<close>

text \<open>
  C4 (as stated). The claim says that the conversion from an unknown wire value such as
  \<open>"bogus"\<close> yields none and never an exception. The call \<open>FormType("bogus")\<close> raises
  \<open>ValueError\<close>.
\<close>

theorem FormType_bogus_counterexample:
  "FormType_call ''bogus'' = Inl ValueError"
  by code_simp

text \<open>
  C4 (amended). For each of \<open>FormType\<close>, \<open>Mode\<close>, \<open>UseType\<close>, \<open>ProcessType\<close>,
  \<open>BindingStyle\<close> and \<open>UseChoice\<close>, calling the class with the value of a member returns
  that member, and calling it with a string that is the value of no member, such as
  \<open>"bogus"\<close>, raises \<open>ValueError\<close>.
\<close>

theorem enum_call_roundtrip:
  "(\<forall>v. FormType_call (FormType_value v) = Inr v)
   \<and> (\<forall>v. Mode_call (Mode_value v) = Inr v)
   \<and> (\<forall>v. UseType_call (UseType_value v) = Inr v)
   \<and> (\<forall>v. ProcessType_call (ProcessType_value v) = Inr v)
   \<and> (\<forall>v. BindingStyle_call (BindingStyle_value v) = Inr v)
   \<and> (\<forall>v. UseChoice_call (UseChoice_value v) = Inr v)
   \<and> FormType_call ''bogus'' = Inl ValueError
   \<and> Mode_call ''bogus'' = Inl ValueError
   \<and> UseType_call ''bogus'' = Inl ValueError
   \<and> ProcessType_call ''bogus'' = Inl ValueError
   \<and> BindingStyle_call ''bogus'' = Inl ValueError
   \<and> UseChoice_call ''bogus'' = Inl ValueError
   \<and> (\<forall>s. s \<notin> FormType_value ` set FormType_members
        \<longrightarrow> FormType_call s = Inl ValueError)
   \<and> (\<forall>s. s \<notin> Mode_value ` set Mode_members
        \<longrightarrow> Mode_call s = Inl ValueError)
   \<and> (\<forall>s. s \<notin> UseType_value ` set UseType_members
        \<longrightarrow> UseType_call s = Inl ValueError)
   \<and> (\<forall>s. s \<notin> ProcessType_value ` set ProcessType_members
        \<longrightarrow> ProcessType_call s = Inl ValueError)
   \<and> (\<forall>s. s \<notin> BindingStyle_value ` set BindingStyle_members
        \<longrightarrow> BindingStyle_call s = Inl ValueError)
   \<and> (\<forall>s. s \<notin> UseChoice_value ` set UseChoice_members
        \<longrightarrow> UseChoice_call s = Inl ValueError)"
proof -
  have rt1: "\<forall>v. FormType_call (FormType_value v) = Inr v"
  proof
    fix v
    show "FormType_call (FormType_value v) = Inr v"
      by (cases v) (simp_all add: FormType_call_def enum_call_def FormType_members_def)
  qed
  have rt2: "\<forall>v. Mode_call (Mode_value v) = Inr v"
  proof
    fix v
    show "Mode_call (Mode_value v) = Inr v"
      by (cases v) (simp_all add: Mode_call_def enum_call_def Mode_members_def)
  qed
  have rt3: "\<forall>v. UseType_call (UseType_value v) = Inr v"
  proof
    fix v
    show "UseType_call (UseType_value v) = Inr v"
      by (cases v) (simp_all add: UseType_call_def enum_call_def UseType_members_def)
  qed
  have rt4: "\<forall>v. ProcessType_call (ProcessType_value v) = Inr v"
  proof
    fix v
    show "ProcessType_call (ProcessType_value v) = Inr v"
      by (cases v) (simp_all add: ProcessType_call_def enum_call_def ProcessType_members_def)
  qed
  have rt5: "\<forall>v. BindingStyle_call (BindingStyle_value v) = Inr v"
  proof
    fix v
    show "BindingStyle_call (BindingStyle_value v) = Inr v"
      by (cases v) (simp_all add: BindingStyle_call_def enum_call_def BindingStyle_members_def)
  qed
  have rt6: "\<forall>v. UseChoice_call (UseChoice_value v) = Inr v"
  proof
    fix v
    show "UseChoice_call (UseChoice_value v) = Inr v"
      by (cases v) (simp_all add: UseChoice_call_def enum_call_def UseChoice_members_def)
  qed
  have bg1: "FormType_call ''bogus'' = Inl ValueError"
    by code_simp
  have bg2: "Mode_call ''bogus'' = Inl ValueError"
    by code_simp
  have bg3: "UseType_call ''bogus'' = Inl ValueError"
    by code_simp
  have bg4: "ProcessType_call ''bogus'' = Inl ValueError"
    by code_simp
  have bg5: "BindingStyle_call ''bogus'' = Inl ValueError"
    by code_simp
  have bg6: "UseChoice_call ''bogus'' = Inl ValueError"
    by code_simp
  have un1: "\<forall>s. s \<notin> FormType_value ` set FormType_members
        \<longrightarrow> FormType_call s = Inl ValueError"
    by (simp add: FormType_call_def enum_call_unknown)
  have un2: "\<forall>s. s \<notin> Mode_value ` set Mode_members
        \<longrightarrow> Mode_call s = Inl ValueError"
    by (simp add: Mode_call_def enum_call_unknown)
  have un3: "\<forall>s. s \<notin> UseType_value ` set UseType_members
        \<longrightarrow> UseType_call s = Inl ValueError"
    by (simp add: UseType_call_def enum_call_unknown)
  have un4: "\<forall>s. s \<notin> ProcessType_value ` set ProcessType_members
        \<longrightarrow> ProcessType_call s = Inl ValueError"
    by (simp add: ProcessType_call_def enum_call_unknown)
  have un5: "\<forall>s. s \<notin> BindingStyle_value ` set BindingStyle_members
        \<longrightarrow> BindingStyle_call s = Inl ValueError"
    by (simp add: BindingStyle_call_def enum_call_unknown)
  have un6: "\<forall>s. s \<notin> UseChoice_value ` set UseChoice_members
        \<longrightarrow> UseChoice_call s = Inl ValueError"
    by (simp add: UseChoice_call_def enum_call_unknown)
  from rt1 rt2 rt3 rt4 rt5 rt6 bg1 bg2 bg3 bg4 bg5 bg6 un1 un2 un3 un4 un5 un6
  show ?thesis
    by (intro conjI)
qed

theorem enum_call_roundtrip_witness:
  "''Qualified'' \<notin> FormType_value ` set FormType_members
   \<and> FormType_call ''Qualified'' = Inl ValueError
   \<and> ''prefix'' \<notin> Mode_value ` set Mode_members
   \<and> Mode_call ''prefix'' = Inl ValueError
   \<and> ''mandatory'' \<notin> UseType_value ` set UseType_members
   \<and> UseType_call ''mandatory'' = Inl ValueError
   \<and> ''relaxed'' \<notin> ProcessType_value ` set ProcessType_members
   \<and> ProcessType_call ''relaxed'' = Inl ValueError
   \<and> ''RPC'' \<notin> BindingStyle_value ` set BindingStyle_members
   \<and> BindingStyle_call ''RPC'' = Inl ValueError
   \<and> ''plain'' \<notin> UseChoice_value ` set UseChoice_members
   \<and> UseChoice_call ''plain'' = Inl ValueError
   \<and> UseType_call ''required'' = Inr REQUIRED"
proof -
  have h1: "''Qualified'' \<notin> FormType_value ` set FormType_members"
    by code_simp
  have h2: "''prefix'' \<notin> Mode_value ` set Mode_members"
    by code_simp
  have h3: "''mandatory'' \<notin> UseType_value ` set UseType_members"
    by code_simp
  have h4: "''relaxed'' \<notin> ProcessType_value ` set ProcessType_members"
    by code_simp
  have h5: "''RPC'' \<notin> BindingStyle_value ` set BindingStyle_members"
    by code_simp
  have h6: "''plain'' \<notin> UseChoice_value ` set UseChoice_members"
    by code_simp
  from enum_call_roundtrip
  have u1: "\<forall>s. s \<notin> FormType_value ` set FormType_members
        \<longrightarrow> FormType_call s = Inl ValueError"
    by (elim conjE)
  from enum_call_roundtrip
  have u2: "\<forall>s. s \<notin> Mode_value ` set Mode_members
        \<longrightarrow> Mode_call s = Inl ValueError"
    by (elim conjE)
  from enum_call_roundtrip
  have u3: "\<forall>s. s \<notin> UseType_value ` set UseType_members
        \<longrightarrow> UseType_call s = Inl ValueError"
    by (elim conjE)
  from enum_call_roundtrip
  have u4: "\<forall>s. s \<notin> ProcessType_value ` set ProcessType_members
        \<longrightarrow> ProcessType_call s = Inl ValueError"
    by (elim conjE)
  from enum_call_roundtrip
  have u5: "\<forall>s. s \<notin> BindingStyle_value ` set BindingStyle_members
        \<longrightarrow> BindingStyle_call s = Inl ValueError"
    by (elim conjE)
  from enum_call_roundtrip
  have u6: "\<forall>s. s \<notin> UseChoice_value ` set UseChoice_members
        \<longrightarrow> UseChoice_call s = Inl ValueError"
    by (elim conjE)
  from enum_call_roundtrip
  have v: "\<forall>v. UseType_call (UseType_value v) = Inr v"
    by (elim conjE)
  from u1 [rule_format, OF h1] have r1: "FormType_call ''Qualified'' = Inl ValueError" .
  from u2 [rule_format, OF h2] have r2: "Mode_call ''prefix'' = Inl ValueError" .
  from u3 [rule_format, OF h3] have r3: "UseType_call ''mandatory'' = Inl ValueError" .
  from u4 [rule_format, OF h4] have r4: "ProcessType_call ''relaxed'' = Inl ValueError" .
  from u5 [rule_format, OF h5] have r5: "BindingStyle_call ''RPC'' = Inl ValueError" .
  from u6 [rule_format, OF h6] have r6: "UseChoice_call ''plain'' = Inl ValueError" .
  from v have "UseType_call (UseType_value REQUIRED) = Inr REQUIRED"
    by (rule spec)
  then have r7: "UseType_call ''required'' = Inr REQUIRED"
    by simp
  from h1 r1 h2 r2 h3 r3 h4 r4 h5 r5 h6 r6 r7
  show ?thesis
    by (intro conjI)
qed

end
